theory Spec2Isabelle
  imports Main "HOL-Library.Word" "HOL-Library.Sublist"
begin

section \<open>The markup linter of vale: \<^verbatim>\<open>lint/markup.go\<close>\<close>

text \<open>
  The file walks the HTML rendering of a document token by token, classifies each text token
  as heading, list item or prose, hands it to the rule engine and keeps a context buffer
  (a copy of the raw source) in step. Go strings are byte sequences; they are modelled as
  \<^typ>\<open>string\<close>, whose characters are bytes. Go's \<^verbatim>\<open>int\<close> is taken as a 64-bit word.
\<close>

type_synonym go_int = "64 word"

subsection \<open>Tokens of \<^verbatim>\<open>golang.org/x/net/html\<close>\<close>

datatype TokenType =
  ErrorToken | TextToken | StartTagToken | EndTagToken
  | SelfClosingTagToken | CommentToken | DoctypeToken

record Attribute =
  Namespace :: string
  Key :: string
  Val :: string

record Token =
  Type :: TokenType
  Data :: string
  Attr :: "Attribute list"

subsection \<open>Files, errors and the calls into the rule engine\<close>

record File =
  Path :: string
  RealExt :: string

datatype error = ReadError string | StartError string | ExitError nat

text \<open>
  \<^verbatim>\<open>NewBlock(ctx, txt, scope)\<close> belongs to another file of the package; a block is kept as the
  triple of the arguments it was built from. The linter's two entry points
  \<^verbatim>\<open>l.lintText(f, b, lines, pad)\<close> and \<^verbatim>\<open>l.lintProse(f, ctx, txt, lines, pad)\<close> are effects: each
  call is recorded, in order, with its arguments (the file \<^verbatim>\<open>f\<close> is the same in every call of
  a pass and is left out).
\<close>

datatype Block = NewBlock string string string

datatype call =
  lintText Block go_int go_int
  | lintProse string string go_int go_int

subsection \<open>What the file calls and does not define\<close>

text \<open>
  How a spawned command ended: it could not be started, or it ran and left an exit status.
  \<^verbatim>\<open>cmd.Run()\<close> of \<^verbatim>\<open>os/exec\<close> returns a nil error exactly when the command started and
  exited with status 0.
\<close>

datatype exit = SpawnFailure string | Exited nat

fun Run_err :: "exit \<Rightarrow> error option" where
  "Run_err (SpawnFailure m) = Some (StartError m)"
| "Run_err (Exited n) = (if n = 0 then None else Some (ExitError n))"

text \<open>
  The functions of package \<^verbatim>\<open>core\<close>, of the Go library and of the operating system that the
  file calls are parameters of the model:
  \<^item> \<open>PrepText\<close>, \<open>Substitute\<close>: \<^verbatim>\<open>core.PrepText\<close>, \<^verbatim>\<open>core.Substitute\<close>;
  \<^item> \<open>UnescapeString\<close>: \<^verbatim>\<open>html.UnescapeString\<close>; \<open>TrimSpace\<close>, \<open>Fields\<close>: \<^verbatim>\<open>strings.TrimSpace\<close>,
    \<^verbatim>\<open>strings.Fields\<close> (both work on Unicode white space);
  \<^item> \<open>Tokenizer\<close>: the tokens that \<^verbatim>\<open>html.NewTokenizer\<close> yields on a byte sequence, one per
    call of \<^verbatim>\<open>Next\<close>; past the end of the list \<^verbatim>\<open>Next\<close> returns \<^verbatim>\<open>ErrorToken\<close> (end of input);
  \<^item> \<open>ReadFile\<close>: \<^verbatim>\<open>ioutil.ReadFile\<close>, with Go's pair of results;
  \<^item> \<open>Command\<close>: running a program with arguments and standard input; the result is the
    captured standard output and how the process ended;
  \<^item> \<open>reCodeBlock_ReplaceAll\<close>: \<^verbatim>\<open>reCodeBlock.ReplaceAll(b, []byte("::"))\<close>;
  \<^item> \<open>MarkdownOptions\<close>: \<^verbatim>\<open>blackfriday.MarkdownOptions(b, renderer, options)\<close>.
\<close>

record extern =
  PrepText :: "string \<Rightarrow> string"
  Substitute :: "string \<Rightarrow> string \<Rightarrow> string \<times> bool"
  UnescapeString :: "string \<Rightarrow> string"
  TrimSpace :: "string \<Rightarrow> string"
  Fields :: "string \<Rightarrow> string list"
  Tokenizer :: "string \<Rightarrow> Token list"
  ReadFile :: "string \<Rightarrow> string \<times> error option"
  Command :: "string \<Rightarrow> string list \<Rightarrow> string \<Rightarrow> string \<times> exit"
  reCodeBlock_ReplaceAll :: "string \<Rightarrow> string"
  MarkdownOptions :: "string \<Rightarrow> string"

text \<open>
  Modelled from the spec: \<^verbatim>\<open>core.StringInSlice\<close> is not part of the file. The walker uses it
  to ask whether a name "is a designated skip tag", that is, whether the string occurs in
  the slice.
\<close>

definition StringInSlice :: "string \<Rightarrow> string list \<Rightarrow> bool" where
  "StringInSlice a list = (a \<in> set list)"

text \<open>
  Modelled from the spec: \<^verbatim>\<open>core.CheckError\<close> is not part of the file. A failure is
  "reported once" and the pass aborts: a non-nil error yields one report (the error with the
  message, here the path) and the answer \<open>False\<close>; a nil error yields no report and \<open>True\<close>.
\<close>

definition CheckError :: "error option \<Rightarrow> string \<Rightarrow> (error \<times> string) list \<times> bool" where
  "CheckError err message =
     (case err of None \<Rightarrow> ([], True) | Some e \<Rightarrow> ([(e, message)], False))"

subsection \<open>Configuration\<close>

definition rstArgs :: "string list" where
  "rstArgs = [''--quiet'', ''--halt=5'', ''--link-stylesheet'', ''--no-file-insertion'',
     ''--no-toc-backlinks'', ''--no-footnote-backlinks'', ''--no-section-numbering'']"

definition adocArgs :: "string list" where
  "adocArgs = [''--no-header-footer'', ''--quiet'', ''--safe-mode'', ''secure'', ''-'']"

text \<open>\<^verbatim>\<open>heading = regexp.MustCompile(`^h\d$`)\<close>: the whole string is \<open>h\<close> and one ASCII digit.\<close>

definition heading_MatchString :: "string \<Rightarrow> bool" where
  "heading_MatchString s =
     (case s of [h, d] \<Rightarrow> h = CHR ''h'' \<and> d \<in> set ''0123456789'' | _ \<Rightarrow> False)"

definition skipTags :: "string list" where
  "skipTags = [''script'', ''style'', ''pre'', ''code'', ''tt'']"

definition skipClasses :: "string list" where
  "skipClasses = []"

subsection \<open>\<^verbatim>\<open>strings.Split(txt, "\n")\<close> and \<^verbatim>\<open>strings.Count(ctx, "\n")\<close>\<close>

fun Split_newline :: "string \<Rightarrow> string list" where
  "Split_newline [] = [[]]"
| "Split_newline (c # cs) =
     (if c = CHR 0x0A then [] # Split_newline cs
      else (case Split_newline cs of [] \<Rightarrow> [[c]] | l # ls \<Rightarrow> (c # l) # ls))"

definition Count_newline :: "string \<Rightarrow> nat" where
  "Count_newline s = length (filter (\<lambda>c. c = CHR 0x0A) s)"

subsection \<open>\<^verbatim>\<open>updateCtx\<close>, \<^verbatim>\<open>clearElements\<close>, \<^verbatim>\<open>getAttribute\<close>\<close>

text \<open>The inner loop of \<^verbatim>\<open>updateCtx\<close>: \<^verbatim>\<open>for _, w := range strings.Fields(s)\<close>.\<close>

fun updateCtx_words :: "extern \<Rightarrow> string \<Rightarrow> string list \<Rightarrow> string" where
  "updateCtx_words E ctx [] = ctx"
| "updateCtx_words E ctx (w # ws) = updateCtx_words E (fst (Substitute E ctx w)) ws"

text \<open>
  The outer loop: \<^verbatim>\<open>for _, s := range strings.Split(txt, "\n")\<close>. The context is overwritten
  by what \<^verbatim>\<open>core.Substitute\<close> returns, found or not.
\<close>

fun updateCtx_lines :: "extern \<Rightarrow> string \<Rightarrow> string list \<Rightarrow> string" where
  "updateCtx_lines E ctx [] = ctx"
| "updateCtx_lines E ctx (s # ss) =
     (let (ctx1, found) = Substitute E ctx s;
          ctx2 = (if \<not> found then updateCtx_words E ctx1 (Fields E s) else ctx1)
      in updateCtx_lines E ctx2 ss)"

definition updateCtx :: "extern \<Rightarrow> string \<Rightarrow> string \<Rightarrow> TokenType \<Rightarrow> string" where
  "updateCtx E ctx txt tokt =
     (if (tokt = TextToken \<or> tokt = CommentToken) \<and> txt \<noteq> []
      then updateCtx_lines E ctx (Split_newline txt)
      else ctx)"

fun getAttribute_loop :: "Attribute list \<Rightarrow> string \<Rightarrow> string" where
  "getAttribute_loop [] key = []"
| "getAttribute_loop (a # as) key = (if Key a = key then Val a else getAttribute_loop as key)"

definition getAttribute :: "Token \<Rightarrow> string \<Rightarrow> string" where
  "getAttribute tok key = getAttribute_loop (Attr tok) key"

fun clearElements_loop :: "extern \<Rightarrow> string \<Rightarrow> Attribute list \<Rightarrow> string" where
  "clearElements_loop E ctx [] = ctx"
| "clearElements_loop E ctx (a # as) =
     clearElements_loop E
       (if Key a = ''alt'' \<or> Key a = ''href'' then updateCtx E ctx (Val a) TextToken else ctx) as"

definition clearElements :: "extern \<Rightarrow> string \<Rightarrow> Token \<Rightarrow> string" where
  "clearElements E ctx tok =
     (if Data tok = ''img'' \<or> Data tok = ''a'' then clearElements_loop E ctx (Attr tok) else ctx)"

subsection \<open>The token walk of \<^verbatim>\<open>lintHTMLTokens\<close>\<close>

text \<open>
  The variables that live across iterations of the loop, and the calls made so far.
  (\<^verbatim>\<open>skip\<close>, \<^verbatim>\<open>txt\<close>, \<^verbatim>\<open>tok\<close> and \<^verbatim>\<open>tokt\<close> are assigned afresh in every iteration.)
\<close>

record walker =
  w_ctx :: string
  w_tag :: string
  w_attr :: string
  w_inBlock :: bool
  w_calls :: "call list"

definition token_txt :: "extern \<Rightarrow> Token \<Rightarrow> string" where
  "token_txt E tok = PrepText E (UnescapeString E (TrimSpace E (Data tok)))"

text \<open>One iteration for a token that is not \<^verbatim>\<open>ErrorToken\<close>: the branch chain, then the three updates.\<close>

definition walk_step :: "extern \<Rightarrow> File \<Rightarrow> go_int \<Rightarrow> Token \<Rightarrow> walker \<Rightarrow> walker" where
  "walk_step E f lines tok w =
     (let tokt = Type tok;
          txt = token_txt E tok;
          skip = (StringInSlice txt skipTags \<or> StringInSlice (w_attr w) skipClasses);
          w1 =
            (if tokt = StartTagToken \<and> skip then w\<lparr>w_inBlock := True\<rparr>
             else if skip \<and> w_inBlock w then w\<lparr>w_inBlock := False\<rparr>
             else if tokt = StartTagToken then w\<lparr>w_tag := txt\<rparr>
             else if tokt = TextToken \<and> heading_MatchString (w_tag w) then
               w\<lparr>w_calls := w_calls w @
                  [lintText (NewBlock (w_ctx w) txt (''text.heading'' @ RealExt f)) lines 0]\<rparr>
             else if tokt = TextToken \<and> w_tag w = ''li'' then
               w\<lparr>w_calls := w_calls w @
                  [lintText (NewBlock (w_ctx w) txt (''text.list'' @ RealExt f)) lines 0]\<rparr>
             else if tokt = TextToken \<and> \<not> w_inBlock w \<and> \<not> skip \<and> txt \<noteq> [] then
               w\<lparr>w_calls := w_calls w @ [lintProse (w_ctx w) txt lines 0]\<rparr>
             else w)
      in w1\<lparr>w_attr := getAttribute tok ''class'',
            w_ctx := updateCtx E (clearElements E (w_ctx w1) tok) txt tokt\<rparr>)"

text \<open>
  The \<^verbatim>\<open>for\<close> loop: it breaks at the first \<^verbatim>\<open>ErrorToken\<close>; the end of the token list is the end
  of the input, where \<^verbatim>\<open>Next\<close> returns \<^verbatim>\<open>ErrorToken\<close> too.
\<close>

fun walk :: "extern \<Rightarrow> File \<Rightarrow> go_int \<Rightarrow> Token list \<Rightarrow> walker \<Rightarrow> walker" where
  "walk E f lines [] w = w"
| "walk E f lines (tok # toks) w =
     (if Type tok = ErrorToken then w else walk E f lines toks (walk_step E f lines tok w))"

definition walker_init :: "string \<Rightarrow> walker" where
  "walker_init ctx = \<lparr>w_ctx = ctx, w_tag = [], w_attr = [], w_inBlock = False, w_calls = []\<rparr>"

definition lintHTMLTokens :: "extern \<Rightarrow> File \<Rightarrow> string \<Rightarrow> string \<Rightarrow> go_int \<Rightarrow> call list" where
  "lintHTMLTokens E f rawBytes fBytes offset =
     (let ctx = PrepText E rawBytes;
          lines = of_nat (Count_newline ctx) + 1 + offset
      in w_calls (walk E f lines (Tokenizer E fBytes) (walker_init ctx)))"

subsection \<open>The four passes\<close>

text \<open>What a pass leaves behind: the failures reported and the calls into the rule engine.\<close>

record pass =
  reports :: "(error \<times> string) list"
  dispatched :: "call list"

definition lintHTML :: "extern \<Rightarrow> File \<Rightarrow> pass" where
  "lintHTML E f =
     (let (b, err) = ReadFile E (Path f);
          (r1, ok1) = CheckError err (Path f)
      in if \<not> ok1 then \<lparr>reports = r1, dispatched = []\<rparr>
         else \<lparr>reports = r1, dispatched = lintHTMLTokens E f b b 0\<rparr>)"

definition lintMarkdown :: "extern \<Rightarrow> File \<Rightarrow> pass" where
  "lintMarkdown E f =
     (let (b, err) = ReadFile E (Path f);
          (r1, ok1) = CheckError err (Path f)
      in if \<not> ok1 then \<lparr>reports = r1, dispatched = []\<rparr>
         else \<lparr>reports = r1, dispatched = lintHTMLTokens E f b (MarkdownOptions E b) 0\<rparr>)"

definition lintRST :: "extern \<Rightarrow> File \<Rightarrow> string \<Rightarrow> string \<Rightarrow> pass" where
  "lintRST E f python rst2html =
     (let (b, err) = ReadFile E (Path f);
          (r1, ok1) = CheckError err (Path f)
      in if \<not> ok1 then \<lparr>reports = r1, dispatched = []\<rparr>
         else
           (let (out, ex) = Command E python (rst2html # rstArgs) (reCodeBlock_ReplaceAll E b);
                (r2, ok2) = CheckError (Run_err ex) (Path f)
            in if ok2 then \<lparr>reports = r1 @ r2, dispatched = lintHTMLTokens E f b out 0\<rparr>
               else \<lparr>reports = r1 @ r2, dispatched = []\<rparr>))"

definition lintADoc :: "extern \<Rightarrow> File \<Rightarrow> string \<Rightarrow> pass" where
  "lintADoc E f asciidoctor =
     (let (b, err) = ReadFile E (Path f);
          (r1, ok1) = CheckError err (Path f)
      in if \<not> ok1 then \<lparr>reports = r1, dispatched = []\<rparr>
         else
           (let (out, ex) = Command E asciidoctor adocArgs b;
                (r2, ok2) = CheckError (Run_err ex) (Path f)
            in if ok2 then \<lparr>reports = r1 @ r2, dispatched = lintHTMLTokens E f b out 0\<rparr>
               else \<lparr>reports = r1 @ r2, dispatched = []\<rparr>))"

subsection \<open>An instance of the parameters\<close>

text \<open>A plain instance of the parameters, on which the model evaluates.\<close>

text \<open>White space of ASCII, as \<^verbatim>\<open>unicode.IsSpace\<close> has it below \<^verbatim>\<open>0x80\<close>.\<close>

definition is_space :: "char \<Rightarrow> bool" where
  "is_space c = (c \<in> set [CHR 0x09, CHR 0x0A, CHR 0x0B, CHR 0x0C, CHR 0x0D, CHR '' ''])"

fun Fields_from :: "string \<Rightarrow> string \<Rightarrow> string list" where
  "Fields_from [] cur = (if cur = [] then [] else [rev cur])"
| "Fields_from (c # cs) cur =
     (if is_space c then (if cur = [] then Fields_from cs [] else rev cur # Fields_from cs [])
      else Fields_from cs (c # cur))"

definition Fields_ascii :: "string \<Rightarrow> string list" where
  "Fields_ascii s = Fields_from s []"

definition TrimSpace_ascii :: "string \<Rightarrow> string" where
  "TrimSpace_ascii s = rev (dropWhile is_space (rev (dropWhile is_space s)))"

text \<open>
  Modelled from the spec: \<^verbatim>\<open>core.Substitute\<close> is not part of the file. "Search for the
  fragment as an exact substring; if found, remove it and everything preceding it from the
  buffer"; on a miss the buffer is returned as it is, with \<open>False\<close>.
\<close>

fun Substitute_cut :: "string \<Rightarrow> string \<Rightarrow> string option" where
  "Substitute_cut [] sub = (if sub = [] then Some [] else None)"
| "Substitute_cut (c # cs) sub =
     (if prefix sub (c # cs) then Some (drop (length sub) (c # cs)) else Substitute_cut cs sub)"

definition Substitute_spec :: "string \<Rightarrow> string \<Rightarrow> string \<times> bool" where
  "Substitute_spec src sub =
     (case Substitute_cut src sub of None \<Rightarrow> (src, False) | Some rest \<Rightarrow> (rest, True))"

text \<open>
  The instance: no normalisation and no entities, ASCII white space, the spec's substitution,
  and a fixed answer from the tokenizer, the file system and the spawned command.
\<close>

definition plain_extern :: "Token list \<Rightarrow> string \<times> error option \<Rightarrow> string \<times> exit \<Rightarrow> extern" where
  "plain_extern toks rd cmd =
     \<lparr>PrepText = (\<lambda>s. s), Substitute = Substitute_spec, UnescapeString = (\<lambda>s. s),
      TrimSpace = TrimSpace_ascii, Fields = Fields_ascii, Tokenizer = (\<lambda>b. toks),
      ReadFile = (\<lambda>p. rd), Command = (\<lambda>name args stdin. cmd),
      reCodeBlock_ReplaceAll = (\<lambda>b. b), MarkdownOptions = (\<lambda>b. b)\<rparr>"

definition tk :: "TokenType \<Rightarrow> string \<Rightarrow> Token" where
  "tk t d = \<lparr>Type = t, Data = d, Attr = []\<rparr>"

text \<open>Three small token sequences: a heading and a paragraph; \<^verbatim>\<open><pre><code>a</code>b</pre>\<close>;
  \<^verbatim>\<open><h1><em>foo</em>bar</h1>\<close>.\<close>

definition demo_tokens :: "Token list" where
  "demo_tokens = [tk StartTagToken ''h1'', tk TextToken ''Title'', tk EndTagToken ''h1'',
     tk StartTagToken ''p'', tk TextToken ''Some text.'', tk EndTagToken ''p'']"

definition nested_pre :: "Token list" where
  "nested_pre = [tk StartTagToken ''pre'', tk StartTagToken ''code'', tk TextToken ''a'',
     tk EndTagToken ''code'', tk TextToken ''b'', tk EndTagToken ''pre'']"

definition heading_em :: "Token list" where
  "heading_em = [tk StartTagToken ''h1'', tk StartTagToken ''em'', tk TextToken ''foo'',
     tk EndTagToken ''em'', tk TextToken ''bar'', tk EndTagToken ''h1'']"

subsection \<open>Notions used in the statements\<close>

text \<open>The line argument of a call, and whether a call is a prose dispatch.\<close>

fun call_lines :: "call \<Rightarrow> go_int" where
  "call_lines (lintText b lines pad) = lines"
| "call_lines (lintProse ctx txt lines pad) = lines"

fun is_prose :: "call \<Rightarrow> bool" where
  "is_prose (lintText b lines pad) = False"
| "is_prose (lintProse ctx txt lines pad) = True"

text \<open>The calls made between two states of the walk.\<close>

definition new_calls :: "walker \<Rightarrow> walker \<Rightarrow> call list" where
  "new_calls before after = drop (length (w_calls before)) (w_calls after)"

text \<open>
  The elements that are open after a sequence of tokens, innermost first: a start tag opens
  an element, the matching end tag closes it. This is the nesting of the document, which the
  walker does not keep.
\<close>

fun open_elements :: "Token list \<Rightarrow> string list \<Rightarrow> string list" where
  "open_elements [] stack = stack"
| "open_elements (t # ts) stack =
     open_elements ts
       (if Type t = StartTagToken then Data t # stack
        else if Type t = EndTagToken \<and> stack \<noteq> [] \<and> hd stack = Data t then tl stack
        else stack)"

text \<open>
  Two readings of a token sequence that the walker does keep: the name of the last start tag
  that is not a skip tag, and whether the last token whose text is a skip tag name is a
  start tag.
\<close>

fun current_tag :: "extern \<Rightarrow> Token list \<Rightarrow> string \<Rightarrow> string" where
  "current_tag E [] tag = tag"
| "current_tag E (t # ts) tag =
     current_tag E ts
       (if Type t = StartTagToken \<and> token_txt E t \<notin> set skipTags then token_txt E t else tag)"

fun skip_flag :: "extern \<Rightarrow> Token list \<Rightarrow> bool \<Rightarrow> bool" where
  "skip_flag E [] b = b"
| "skip_flag E (t # ts) b =
     skip_flag E ts (if token_txt E t \<in> set skipTags then Type t = StartTagToken else b)"

text \<open>A command failed: it could not be spawned, or it exited with a status other than 0.\<close>

definition failed :: "exit \<Rightarrow> bool" where
  "failed ex = (case ex of SpawnFailure m \<Rightarrow> True | Exited n \<Rightarrow> n \<noteq> 0)"

text \<open>
  What one line of a fragment does to the context, in words: the line is searched as a whole;
  if that misses, its words are searched one after the other, each from where the previous
  one left the buffer.
\<close>

definition consume_line :: "extern \<Rightarrow> string \<Rightarrow> string \<Rightarrow> string" where
  "consume_line E ctx s =
     (if snd (Substitute E ctx s) then fst (Substitute E ctx s)
      else updateCtx_words E (fst (Substitute E ctx s)) (Fields E s))"

section \<open>Properties\<close>

subsection \<open>The walk, step by step\<close>

lemma skipClasses_never [simp]: "StringInSlice a skipClasses = False"
  by (simp add: StringInSlice_def skipClasses_def)

lemma in_skipTags: "StringInSlice a skipTags = (a \<in> set skipTags)"
  by (simp add: StringInSlice_def)

lemma walk_append:
  "\<forall>t\<in>set xs. Type t \<noteq> ErrorToken \<Longrightarrow>
   walk E f lines (xs @ ys) w = walk E f lines ys (walk E f lines xs w)"
  by (induction xs arbitrary: w) auto

lemma walk_snoc:
  "\<forall>t\<in>set pre. Type t \<noteq> ErrorToken \<Longrightarrow> Type tok \<noteq> ErrorToken \<Longrightarrow>
   walk E f lines (pre @ [tok]) w = walk_step E f lines tok (walk E f lines pre w)"
  by (simp add: walk_append)

lemma step_inBlock:
  "w_inBlock (walk_step E f lines tok w) =
     (if token_txt E tok \<in> set skipTags then Type tok = StartTagToken else w_inBlock w)"
  by (auto simp: walk_step_def Let_def in_skipTags)

lemma step_tag:
  "w_tag (walk_step E f lines tok w) =
     (if Type tok = StartTagToken \<and> token_txt E tok \<notin> set skipTags then token_txt E tok else w_tag w)"
  by (auto simp: walk_step_def Let_def in_skipTags)

lemma step_ctx:
  "w_ctx (walk_step E f lines tok w) =
     updateCtx E (clearElements E (w_ctx w) tok) (token_txt E tok) (Type tok)"
  by (simp add: walk_step_def Let_def)

lemma step_calls_text:
  "Type tok = TextToken \<Longrightarrow>
   w_calls (walk_step E f lines tok w) = w_calls w @
     (if token_txt E tok \<in> set skipTags \<and> w_inBlock w then []
      else if heading_MatchString (w_tag w) then
        [lintText (NewBlock (w_ctx w) (token_txt E tok) (''text.heading'' @ RealExt f)) lines 0]
      else if w_tag w = ''li'' then
        [lintText (NewBlock (w_ctx w) (token_txt E tok) (''text.list'' @ RealExt f)) lines 0]
      else if \<not> w_inBlock w \<and> token_txt E tok \<notin> set skipTags \<and> token_txt E tok \<noteq> [] then
        [lintProse (w_ctx w) (token_txt E tok) lines 0]
      else [])"
  by (auto simp: walk_step_def Let_def in_skipTags)

lemma step_calls_other:
  "Type tok \<noteq> TextToken \<Longrightarrow> w_calls (walk_step E f lines tok w) = w_calls w"
  by (auto simp: walk_step_def Let_def)

lemma walk_inBlock:
  "\<forall>t\<in>set pre. Type t \<noteq> ErrorToken \<Longrightarrow>
   w_inBlock (walk E f lines pre w) = skip_flag E pre (w_inBlock w)"
  by (induction pre arbitrary: w) (simp_all add: step_inBlock)

lemma walk_tag:
  "\<forall>t\<in>set pre. Type t \<noteq> ErrorToken \<Longrightarrow>
   w_tag (walk E f lines pre w) = current_tag E pre (w_tag w)"
  by (induction pre arbitrary: w) (simp_all add: step_tag)

subsection \<open>Evaluating the model\<close>

lemmas eval_defs = plain_extern_def tk_def walk_step_def token_txt_def TrimSpace_ascii_def
  is_space_def Fields_ascii_def Substitute_spec_def updateCtx_def clearElements_def
  getAttribute_def heading_MatchString_def skipTags_def walker_init_def new_calls_def
  StringInSlice_def skipClasses_def Let_def

subsection \<open>Comment tokens\<close>

text \<open>
  C10. A comment token that the walk reaches makes no call into the rule engine, whatever the
  state of the walker; its text is consumed into the context buffer by \<open>updateCtx\<close>, which
  treats \<open>CommentToken\<close> exactly as it treats \<open>TextToken\<close>.
\<close>

theorem comment_consumed_never_dispatched:
  assumes "\<forall>t\<in>set pre. Type t \<noteq> ErrorToken" and "Type tok = CommentToken"
  shows "w_calls (walk E f lines (pre @ [tok]) w) = w_calls (walk E f lines pre w)
       \<and> w_ctx (walk E f lines (pre @ [tok]) w) =
           updateCtx E (clearElements E (w_ctx (walk E f lines pre w)) tok)
             (token_txt E tok) CommentToken
       \<and> updateCtx E c (token_txt E tok) CommentToken = updateCtx E c (token_txt E tok) TextToken"
proof -
  have "walk E f lines (pre @ [tok]) w = walk_step E f lines tok (walk E f lines pre w)"
    using assms by (simp add: walk_snoc)
  then show ?thesis
    using assms(2) by (simp add: step_calls_other step_ctx updateCtx_def)
qed

theorem comment_consumed_never_dispatched_witness:
  "ErrorToken \<notin> set (map Type [tk StartTagToken ''p''])
   \<and> Type (tk CommentToken '' note '') = CommentToken
   \<and> w_calls (walk (plain_extern [] ([], None) ([], Exited 0)) \<lparr>Path = ''a.html'', RealExt = ''.html''\<rparr> 1
        ([tk StartTagToken ''p''] @ [tk CommentToken '' note ''])
        (walker_init ''<p><!-- note -->x'')) = []
   \<and> w_ctx (walk (plain_extern [] ([], None) ([], Exited 0)) \<lparr>Path = ''a.html'', RealExt = ''.html''\<rparr> 1
        ([tk StartTagToken ''p''] @ [tk CommentToken '' note ''])
        (walker_init ''<p><!-- note -->x'')) = '' -->x''"
  using comment_consumed_never_dispatched
    [of "[tk StartTagToken ''p'']" "tk CommentToken '' note ''"
        "plain_extern [] ([], None) ([], Exited 0)" "\<lparr>Path = ''a.html'', RealExt = ''.html''\<rparr>" 1
        "walker_init ''<p><!-- note -->x''" "[]"]
  by (simp add: eval_defs)

subsection \<open>Text that spells a skip tag\<close>

text \<open>
  C9. The skip check is made on the text of the token itself: a text token whose trimmed,
  unescaped text is one of the names in \<open>skipTags\<close> passes the check, and no prose call is
  made for it, wherever it stands.
\<close>

theorem skip_named_text_never_prose:
  assumes "\<forall>t\<in>set pre. Type t \<noteq> ErrorToken" and "Type tok = TextToken"
    and "token_txt E tok \<in> set skipTags"
  shows "StringInSlice (token_txt E tok) skipTags
       \<and> w_calls (walk E f lines (pre @ [tok]) w) =
           w_calls (walk E f lines pre w)
             @ new_calls (walk E f lines pre w) (walk E f lines (pre @ [tok]) w)
       \<and> (\<forall>c\<in>set (new_calls (walk E f lines pre w) (walk E f lines (pre @ [tok]) w)).
            \<not> is_prose c)"
proof -
  have "walk E f lines (pre @ [tok]) w = walk_step E f lines tok (walk E f lines pre w)"
    using assms by (simp add: walk_snoc)
  then show ?thesis
    using assms(2,3) by (simp add: step_calls_text new_calls_def in_skipTags)
qed

theorem skip_named_text_never_prose_witness:
  "ErrorToken \<notin> set (map Type [tk StartTagToken ''p''])
   \<and> Type (tk TextToken ''code'') = TextToken
   \<and> token_txt (plain_extern [] ([], None) ([], Exited 0)) (tk TextToken ''code'') \<in> set skipTags
   \<and> w_calls (walk (plain_extern [] ([], None) ([], Exited 0)) \<lparr>Path = ''a.html'', RealExt = ''.html''\<rparr> 1
        ([tk StartTagToken ''p''] @ [tk TextToken ''code''])
        (walker_init ''<p>code</p>'')) = []"
  using skip_named_text_never_prose
    [of "[tk StartTagToken ''p'']" "tk TextToken ''code''"
        "plain_extern [] ([], None) ([], Exited 0)" "\<lparr>Path = ''a.html'', RealExt = ''.html''\<rparr>" 1
        "walker_init ''<p>code</p>''"]
  by (simp add: eval_defs)

subsection \<open>The skip flag\<close>

text \<open>
  C5. The skip state is the one boolean \<open>inBlock\<close>. A start tag whose name is a skip tag sets
  it; any other token whose text is a skip tag name clears it; every other token leaves it.
  Its value after a token depends on nothing else, so the depth of nested skip elements is
  not kept: one closing boundary ends the region however many were opened.
\<close>

theorem inBlock_single_boolean:
  assumes "\<forall>t\<in>set pre. Type t \<noteq> ErrorToken" and "Type t \<noteq> ErrorToken"
  shows "w_inBlock (walk E f lines (pre @ [t]) w) =
           (if StringInSlice (token_txt E t) skipTags then Type t = StartTagToken
            else w_inBlock (walk E f lines pre w))"
  using assms by (simp add: walk_snoc step_inBlock in_skipTags)

theorem inBlock_single_boolean_witness:
  "ErrorToken \<notin> set (map Type [tk StartTagToken ''pre'', tk StartTagToken ''code'', tk TextToken ''x''])
   \<and> Type (tk EndTagToken ''code'') \<noteq> ErrorToken
   \<and> w_inBlock (walk (plain_extern [] ([], None) ([], Exited 0)) \<lparr>Path = ''a.html'', RealExt = ''.html''\<rparr> 1
        [tk StartTagToken ''pre'', tk StartTagToken ''code'', tk TextToken ''x'']
        (walker_init ''<pre><code>x</code>y</pre>''))
   \<and> \<not> w_inBlock (walk (plain_extern [] ([], None) ([], Exited 0)) \<lparr>Path = ''a.html'', RealExt = ''.html''\<rparr> 1
        ([tk StartTagToken ''pre'', tk StartTagToken ''code'', tk TextToken ''x''] @ [tk EndTagToken ''code''])
        (walker_init ''<pre><code>x</code>y</pre>''))"
  using inBlock_single_boolean
    [of "[tk StartTagToken ''pre'', tk StartTagToken ''code'', tk TextToken ''x'']"
        "tk EndTagToken ''code''"
        "plain_extern [] ([], None) ([], Exited 0)" "\<lparr>Path = ''a.html'', RealExt = ''.html''\<rparr>" 1
        "walker_init ''<pre><code>x</code>y</pre>''"]
  by (simp add: eval_defs)

subsection \<open>Attributes of images and anchors\<close>

lemma clearElements_loop_foldl:
  "clearElements_loop E ctx as =
     foldl (\<lambda>c v. updateCtx E c v TextToken) ctx
       (map Val (filter (\<lambda>a. Key a = ''alt'' \<or> Key a = ''href'') as))"
  by (induction as arbitrary: ctx) simp_all

text \<open>
  C6. At an \<open>img\<close> or \<open>a\<close> element (a start tag or a self-closing tag) the values of its
  \<open>alt\<close> and \<open>href\<close> attributes are consumed into the context buffer, in attribute order,
  each as a text update; no call into the rule engine is made at that token.
\<close>

theorem img_a_attributes_folded_not_dispatched:
  assumes "\<forall>t\<in>set pre. Type t \<noteq> ErrorToken"
    and "Type tok = StartTagToken \<or> Type tok = SelfClosingTagToken"
    and "Data tok = ''img'' \<or> Data tok = ''a''"
  shows "w_calls (walk E f lines (pre @ [tok]) w) = w_calls (walk E f lines pre w)
       \<and> w_ctx (walk E f lines (pre @ [tok]) w) =
           foldl (\<lambda>c v. updateCtx E c v TextToken) (w_ctx (walk E f lines pre w))
             (map Val (filter (\<lambda>a. Key a = ''alt'' \<or> Key a = ''href'') (Attr tok)))"
proof -
  have "walk E f lines (pre @ [tok]) w = walk_step E f lines tok (walk E f lines pre w)"
    using assms by (auto simp: walk_snoc)
  moreover have "updateCtx E c (token_txt E tok) (Type tok) = c" for c
    using assms(2) by (auto simp: updateCtx_def)
  ultimately show ?thesis
    using assms(2,3)
    by (auto simp: step_calls_other step_ctx clearElements_def clearElements_loop_foldl)
qed

theorem img_a_attributes_folded_not_dispatched_witness:
  "ErrorToken \<notin> set (map Type [tk StartTagToken ''p''])
   \<and> Type \<lparr>Type = SelfClosingTagToken, Data = ''img'',
        Attr = [\<lparr>Namespace = [], Key = ''src'', Val = ''a.png''\<rparr>,
                \<lparr>Namespace = [], Key = ''alt'', Val = ''logo''\<rparr>]\<rparr> = SelfClosingTagToken
   \<and> w_calls (walk (plain_extern [] ([], None) ([], Exited 0)) \<lparr>Path = ''a.md'', RealExt = ''.md''\<rparr> 1
        ([tk StartTagToken ''p''] @ [\<lparr>Type = SelfClosingTagToken, Data = ''img'',
        Attr = [\<lparr>Namespace = [], Key = ''src'', Val = ''a.png''\<rparr>,
                \<lparr>Namespace = [], Key = ''alt'', Val = ''logo''\<rparr>]\<rparr>])
        (walker_init ''![logo](a.png) end'')) = []
   \<and> w_ctx (walk (plain_extern [] ([], None) ([], Exited 0)) \<lparr>Path = ''a.md'', RealExt = ''.md''\<rparr> 1
        ([tk StartTagToken ''p''] @ [\<lparr>Type = SelfClosingTagToken, Data = ''img'',
        Attr = [\<lparr>Namespace = [], Key = ''src'', Val = ''a.png''\<rparr>,
                \<lparr>Namespace = [], Key = ''alt'', Val = ''logo''\<rparr>]\<rparr>])
        (walker_init ''![logo](a.png) end'')) = ''](a.png) end''"
  using img_a_attributes_folded_not_dispatched
    [of "[tk StartTagToken ''p'']" "\<lparr>Type = SelfClosingTagToken, Data = ''img'',
        Attr = [\<lparr>Namespace = [], Key = ''src'', Val = ''a.png''\<rparr>,
                \<lparr>Namespace = [], Key = ''alt'', Val = ''logo''\<rparr>]\<rparr>"
        "plain_extern [] ([], None) ([], Exited 0)" "\<lparr>Path = ''a.md'', RealExt = ''.md''\<rparr>" 1
        "walker_init ''![logo](a.png) end''"]
  by (simp add: eval_defs)

subsection \<open>The line number of a pass\<close>

lemma step_calls_lines:
  "\<forall>c\<in>set (w_calls w). call_lines c = lines \<Longrightarrow>
   \<forall>c\<in>set (w_calls (walk_step E f lines tok w)). call_lines c = lines"
  by (cases "Type tok = TextToken") (auto simp: step_calls_text step_calls_other)

lemma walk_calls_lines:
  "\<forall>c\<in>set (w_calls w). call_lines c = lines \<Longrightarrow>
   \<forall>c\<in>set (w_calls (walk E f lines toks w)). call_lines c = lines"
proof (induction toks arbitrary: w)
  case Nil
  then show ?case by simp
next
  case (Cons tok toks)
  show ?case
  proof (cases "Type tok = ErrorToken")
    case True
    with Cons.prems show ?thesis by simp
  next
    case False
    have "\<forall>c\<in>set (w_calls (walk_step E f lines tok w)). call_lines c = lines"
      using Cons.prems by (rule step_calls_lines)
    then have "\<forall>c\<in>set (w_calls (walk E f lines toks (walk_step E f lines tok w))).
                 call_lines c = lines"
      by (rule Cons.IH)
    with False show ?thesis by simp
  qed
qed

text \<open>
  C8. Every call that a pass of \<open>lintHTMLTokens\<close> makes, to \<open>lintText\<close> or to \<open>lintProse\<close>,
  carries the same line argument: the number of newlines in the normalised raw source, plus
  one, plus the offset. It is computed before the walk and passed unchanged to every step.
\<close>

theorem dispatch_line_number_constant:
  "\<forall>c\<in>set (lintHTMLTokens E f rawBytes fBytes offset).
     call_lines c = of_nat (Count_newline (PrepText E rawBytes)) + 1 + offset"
proof -
  have "\<forall>c\<in>set (w_calls (walker_init (PrepText E rawBytes))).
          call_lines c = of_nat (Count_newline (PrepText E rawBytes)) + 1 + offset"
    by (simp add: walker_init_def)
  then show ?thesis
    unfolding lintHTMLTokens_def Let_def by (rule walk_calls_lines)
qed

theorem dispatch_line_number_constant_witness:
  "lintHTMLTokens (plain_extern demo_tokens ([], None) ([], Exited 0))
      \<lparr>Path = ''a.md'', RealExt = ''.md''\<rparr>
      (''# Title'' @ [CHR 0x0A, CHR 0x0A] @ ''Some text.'' @ [CHR 0x0A]) [] 0
   = [lintText (NewBlock (''# Title'' @ [CHR 0x0A, CHR 0x0A] @ ''Some text.'' @ [CHR 0x0A])
          ''Title'' ''text.heading.md'') 4 0,
      lintProse ([CHR 0x0A, CHR 0x0A] @ ''Some text.'' @ [CHR 0x0A]) ''Some text.'' 4 0]
   \<and> call_lines (lintProse ([CHR 0x0A, CHR 0x0A] @ ''Some text.'' @ [CHR 0x0A]) ''Some text.'' 4 0)
       = of_nat (Count_newline (''# Title'' @ [CHR 0x0A, CHR 0x0A] @ ''Some text.'' @ [CHR 0x0A])) + 1 + 0"
  using dispatch_line_number_constant
    [of "plain_extern demo_tokens ([], None) ([], Exited 0)" "\<lparr>Path = ''a.md'', RealExt = ''.md''\<rparr>"
        "''# Title'' @ [CHR 0x0A, CHR 0x0A] @ ''Some text.'' @ [CHR 0x0A]" "[]" 0]
  by (simp add: eval_defs demo_tokens_def lintHTMLTokens_def Count_newline_def)

subsection \<open>The end of the walk\<close>

lemma step_calls_prefix: "prefix (w_calls w) (w_calls (walk_step E f lines tok w))"
  by (cases "Type tok = TextToken") (simp_all add: step_calls_text step_calls_other)

lemma walk_calls_prefix: "prefix (w_calls w) (w_calls (walk E f lines toks w))"
proof (induction toks arbitrary: w)
  case Nil
  show ?case by simp
next
  case (Cons tok toks)
  have "prefix (w_calls w) (w_calls (walk_step E f lines tok w))"
    by (rule step_calls_prefix)
  also have "prefix \<dots> (w_calls (walk E f lines toks (walk_step E f lines tok w)))"
    by (rule Cons.IH)
  finally show ?case by simp
qed

lemma walk_stops: 
  "\<forall>t\<in>set pre. Type t \<noteq> ErrorToken \<Longrightarrow> Type e = ErrorToken \<Longrightarrow>
   walk E f lines (pre @ e # rest) w = walk E f lines pre w"
  by (simp add: walk_append)

text \<open>
  C7. The walk is a total function of the finite list of tokens, so it returns on every
  rendered stream. It stops at the first \<open>ErrorToken\<close> (a decoding error, or the end of the
  input): the tokens behind it are not looked at and the result is that of the walk over the
  tokens before it. Calls are only ever appended, so what was dispatched after any number of
  tokens is still there at the end. The stop reports nothing: a pass over a readable HTML file
  whose token stream breaks ends with no report and with the blocks dispatched so far.
\<close>

theorem walk_stops_at_first_error:
  assumes "\<forall>t\<in>set pre. Type t \<noteq> ErrorToken" and "Type e = ErrorToken"
  shows "walk E f lines (pre @ e # rest) w = walk E f lines pre w
       \<and> prefix (w_calls (walk E f lines (take n pre) w))
                 (w_calls (walk E f lines (pre @ e # rest) w))
       \<and> (ReadFile E (Path f) = (b, None) \<and> Tokenizer E b = pre @ e # rest \<longrightarrow>
            lintHTML E f =
              \<lparr>reports = [],
               dispatched = w_calls (walk E f (of_nat (Count_newline (PrepText E b)) + 1) pre
                              (walker_init (PrepText E b)))\<rparr>)"
proof -
  have stop: "walk E f l (pre @ e # rest) v = walk E f l pre v" for l v
    using assms by (rule walk_stops)
  have "\<forall>t\<in>set (take n pre). Type t \<noteq> ErrorToken"
    using assms(1) by (auto dest: in_set_takeD)
  then have "walk E f lines pre w = walk E f lines (drop n pre) (walk E f lines (take n pre) w)"
    using walk_append [of "take n pre" E f lines "drop n pre" w] by simp
  then have "prefix (w_calls (walk E f lines (take n pre) w)) (w_calls (walk E f lines pre w))"
    by (simp add: walk_calls_prefix)
  moreover have "lintHTML E f =
      \<lparr>reports = [],
       dispatched = w_calls (walk E f (of_nat (Count_newline (PrepText E b)) + 1) pre
                      (walker_init (PrepText E b)))\<rparr>"
    if "ReadFile E (Path f) = (b, None)" and "Tokenizer E b = pre @ e # rest"
    using that by (simp add: lintHTML_def CheckError_def lintHTMLTokens_def Let_def stop)
  ultimately show ?thesis
    by (simp add: stop)
qed

theorem walk_stops_at_first_error_witness:
  "ErrorToken \<notin> set (map Type [tk StartTagToken ''p'', tk TextToken ''one''])
   \<and> Type (tk ErrorToken []) = ErrorToken
   \<and> lintHTML (plain_extern ([tk StartTagToken ''p'', tk TextToken ''one''] @ tk ErrorToken []
          # [tk TextToken ''two'']) (''<p>one'', None) ([], Exited 0))
        \<lparr>Path = ''a.html'', RealExt = ''.html''\<rparr>
      = \<lparr>reports = [], dispatched = [lintProse ''<p>one'' ''one'' 1 0]\<rparr>"
  using walk_stops_at_first_error
    [of "[tk StartTagToken ''p'', tk TextToken ''one'']" "tk ErrorToken []"
        "plain_extern ([tk StartTagToken ''p'', tk TextToken ''one''] @ tk ErrorToken []
          # [tk TextToken ''two'']) (''<p>one'', None) ([], Exited 0)"
        "\<lparr>Path = ''a.html'', RealExt = ''.html''\<rparr>" 1 "[tk TextToken ''two'']"
        "walker_init ''<p>one''" 1 "''<p>one''"]
  by (simp add: eval_defs Count_newline_def)

subsection \<open>A renderer that fails\<close>

text \<open>
  C2. When the file is read and the external renderer then fails (it cannot be spawned, or it
  exits with a status other than 0), the pass for reStructuredText and the pass for AsciiDoc
  dispatch nothing, whatever the renderer wrote before it failed, and report exactly one
  failure.
\<close>

theorem renderer_failure_aborts:
  assumes "ReadFile E (Path f) = (b, None)"
  shows "(failed (snd (Command E python (rst2html # rstArgs) (reCodeBlock_ReplaceAll E b))) \<longrightarrow>
            dispatched (lintRST E f python rst2html) = []
            \<and> length (reports (lintRST E f python rst2html)) = 1)
       \<and> (failed (snd (Command E asciidoctor adocArgs b)) \<longrightarrow>
            dispatched (lintADoc E f asciidoctor) = []
            \<and> length (reports (lintADoc E f asciidoctor)) = 1)"
  using assms
  by (auto simp: lintRST_def lintADoc_def CheckError_def failed_def
      split: prod.splits exit.splits option.splits if_splits)

theorem renderer_failure_aborts_witness:
  "failed (snd (Command (plain_extern demo_tokens (''Title'', None) (''<h1>Tit'', Exited 1))
       ''python'' (''rst2html.py'' # rstArgs) ''Title''))
   \<and> lintRST (plain_extern demo_tokens (''Title'', None) (''<h1>Tit'', Exited 1))
        \<lparr>Path = ''a.rst'', RealExt = ''.rst''\<rparr> ''python'' ''rst2html.py''
      = \<lparr>reports = [(ExitError 1, ''a.rst'')], dispatched = []\<rparr>
   \<and> lintADoc (plain_extern demo_tokens (''Title'', None) (''<h1>Tit'', Exited 1))
        \<lparr>Path = ''a.rst'', RealExt = ''.rst''\<rparr> ''asciidoctor''
      = \<lparr>reports = [(ExitError 1, ''a.rst'')], dispatched = []\<rparr>"
  using renderer_failure_aborts
    [of "plain_extern demo_tokens (''Title'', None) (''<h1>Tit'', Exited 1)"
        "\<lparr>Path = ''a.rst'', RealExt = ''.rst''\<rparr>" "''Title''" "''python''" "''rst2html.py''"
        "''asciidoctor''"]
  by (simp add: plain_extern_def failed_def lintRST_def lintADoc_def CheckError_def)

subsection \<open>Text inside skip elements\<close>

text \<open>
  C1, as stated, fails: in \<^verbatim>\<open><pre><code>a</code>b</pre>\<close> the text \<open>b\<close> lies inside the open
  \<open>pre\<close> element, and the walk dispatches it as prose, because the end tag of the inner
  \<open>code\<close> has cleared the flag.
\<close>

theorem text_inside_pre_dispatched_as_prose:
  "nested_pre ! 4 = tk TextToken ''b''
   \<and> open_elements (take 4 nested_pre) [] = [''pre'']
   \<and> ''pre'' \<in> set skipTags
   \<and> lintHTMLTokens (plain_extern nested_pre ([], None) ([], Exited 0))
        \<lparr>Path = ''a.html'', RealExt = ''.html''\<rparr>
        ''<pre><code>a</code>b</pre>'' ''<pre><code>a</code>b</pre>'' 0
      = [lintProse ''</code>b</pre>'' ''b'' 1 0]"
  by (simp add: eval_defs nested_pre_def lintHTMLTokens_def Count_newline_def)

text \<open>
  C1, amended. A text token that the walk reaches while the skip flag is set (the last token
  whose text is a skip tag name was a start tag) is consumed into the context buffer and is
  never dispatched as prose; when moreover the current tag is neither a heading tag nor
  \<open>li\<close>, it is not dispatched at all.
\<close>

theorem text_in_skip_region_consumed:
  assumes "\<forall>t\<in>set pre. Type t \<noteq> ErrorToken" and "Type tok = TextToken"
    and "skip_flag E pre (w_inBlock w)"
  shows "w_ctx (walk E f lines (pre @ [tok]) w) =
           updateCtx E (clearElements E (w_ctx (walk E f lines pre w)) tok)
             (token_txt E tok) TextToken
       \<and> w_calls (walk E f lines (pre @ [tok]) w) =
           w_calls (walk E f lines pre w)
             @ new_calls (walk E f lines pre w) (walk E f lines (pre @ [tok]) w)
       \<and> (\<forall>c\<in>set (new_calls (walk E f lines pre w) (walk E f lines (pre @ [tok]) w)).
            \<not> is_prose c)
       \<and> (\<not> heading_MatchString (current_tag E pre (w_tag w))
            \<and> current_tag E pre (w_tag w) \<noteq> ''li'' \<longrightarrow>
          w_calls (walk E f lines (pre @ [tok]) w) = w_calls (walk E f lines pre w))"
proof -
  have "walk E f lines (pre @ [tok]) w = walk_step E f lines tok (walk E f lines pre w)"
    using assms by (simp add: walk_snoc)
  moreover have "w_inBlock (walk E f lines pre w)"
    using assms by (simp add: walk_inBlock)
  moreover have "w_tag (walk E f lines pre w) = current_tag E pre (w_tag w)"
    using assms by (simp add: walk_tag)
  ultimately show ?thesis
    using assms(2) by (simp add: step_calls_text step_ctx new_calls_def)
qed

theorem text_in_skip_region_consumed_witness:
  "ErrorToken \<notin> set (map Type (take 2 nested_pre))
   \<and> nested_pre ! 2 = tk TextToken ''a''
   \<and> skip_flag (plain_extern [] ([], None) ([], Exited 0)) (take 2 nested_pre) False
   \<and> current_tag (plain_extern [] ([], None) ([], Exited 0)) (take 2 nested_pre) [] = []
   \<and> w_calls (walk (plain_extern [] ([], None) ([], Exited 0)) \<lparr>Path = ''a.html'', RealExt = ''.html''\<rparr> 1
        (take 2 nested_pre @ [tk TextToken ''a'']) (walker_init ''<pre><code>a</code>b</pre>'')) = []
   \<and> w_ctx (walk (plain_extern [] ([], None) ([], Exited 0)) \<lparr>Path = ''a.html'', RealExt = ''.html''\<rparr> 1
        (take 2 nested_pre @ [tk TextToken ''a'']) (walker_init ''<pre><code>a</code>b</pre>''))
      = ''</code>b</pre>''"
  using text_in_skip_region_consumed
    [of "take 2 nested_pre" "tk TextToken ''a''" "plain_extern [] ([], None) ([], Exited 0)"
        "walker_init ''<pre><code>a</code>b</pre>''"
        "\<lparr>Path = ''a.html'', RealExt = ''.html''\<rparr>" 1]
  by (simp add: eval_defs nested_pre_def)

subsection \<open>Heading, list item or prose\<close>

text \<open>
  C3, as stated, fails: in \<^verbatim>\<open><h1><em>foo</em>bar</h1>\<close> the innermost open element at \<open>bar\<close>
  is \<open>h1\<close>, and the walk dispatches \<open>bar\<close> as prose: end tags do not restore the tag of the
  enclosing element.
\<close>

theorem text_after_em_in_heading_is_prose:
  "heading_em ! 4 = tk TextToken ''bar''
   \<and> open_elements (take 4 heading_em) [] = [''h1'']
   \<and> lintHTMLTokens (plain_extern heading_em ([], None) ([], Exited 0))
        \<lparr>Path = ''a.html'', RealExt = ''.html''\<rparr>
        ''<h1><em>foo</em>bar</h1>'' ''<h1><em>foo</em>bar</h1>'' 0
      = [lintProse ''<h1><em>foo</em>bar</h1>'' ''foo'' 1 0,
         lintProse ''</em>bar</h1>'' ''bar'' 1 0]"
  by (simp add: eval_defs heading_em_def lintHTMLTokens_def Count_newline_def)

text \<open>
  C3, amended. The tag that classifies a text token is the name of the last start tag that is
  not a skip tag. If it is \<open>h\<close> followed by one digit, a dispatch of the token is a heading
  block; else if it is \<open>li\<close>, a dispatch of the token is a list block; otherwise the token is
  dispatched as prose exactly when the skip flag is clear and its text is neither empty nor
  a skip tag name, and not at all in the other case.
\<close>

theorem text_classified_by_current_tag:
  assumes "\<forall>t\<in>set pre. Type t \<noteq> ErrorToken" and "Type tok = TextToken"
  shows "w_calls (walk E f lines (pre @ [tok]) w) =
           w_calls (walk E f lines pre w)
             @ new_calls (walk E f lines pre w) (walk E f lines (pre @ [tok]) w)
       \<and> (heading_MatchString (current_tag E pre (w_tag w)) \<longrightarrow>
            new_calls (walk E f lines pre w) (walk E f lines (pre @ [tok]) w) = []
            \<or> new_calls (walk E f lines pre w) (walk E f lines (pre @ [tok]) w) =
                [lintText (NewBlock (w_ctx (walk E f lines pre w)) (token_txt E tok)
                   (''text.heading'' @ RealExt f)) lines 0])
       \<and> (\<not> heading_MatchString (current_tag E pre (w_tag w))
            \<and> current_tag E pre (w_tag w) = ''li'' \<longrightarrow>
            new_calls (walk E f lines pre w) (walk E f lines (pre @ [tok]) w) = []
            \<or> new_calls (walk E f lines pre w) (walk E f lines (pre @ [tok]) w) =
                [lintText (NewBlock (w_ctx (walk E f lines pre w)) (token_txt E tok)
                   (''text.list'' @ RealExt f)) lines 0])
       \<and> (\<not> heading_MatchString (current_tag E pre (w_tag w))
            \<and> current_tag E pre (w_tag w) \<noteq> ''li'' \<longrightarrow>
            new_calls (walk E f lines pre w) (walk E f lines (pre @ [tok]) w) =
              (if \<not> skip_flag E pre (w_inBlock w) \<and> token_txt E tok \<notin> set skipTags
                  \<and> token_txt E tok \<noteq> []
               then [lintProse (w_ctx (walk E f lines pre w)) (token_txt E tok) lines 0]
               else []))"
proof -
  have "walk E f lines (pre @ [tok]) w = walk_step E f lines tok (walk E f lines pre w)"
    using assms by (simp add: walk_snoc)
  moreover have "w_inBlock (walk E f lines pre w) = skip_flag E pre (w_inBlock w)"
    using assms by (simp add: walk_inBlock)
  moreover have "w_tag (walk E f lines pre w) = current_tag E pre (w_tag w)"
    using assms by (simp add: walk_tag)
  ultimately show ?thesis
    using assms(2) by (auto simp: step_calls_text new_calls_def)
qed

theorem text_classified_by_current_tag_witness:
  "current_tag (plain_extern [] ([], None) ([], Exited 0)) [tk StartTagToken ''h2''] [] = ''h2''
   \<and> heading_MatchString ''h2''
   \<and> w_calls (walk (plain_extern [] ([], None) ([], Exited 0)) \<lparr>Path = ''a.html'', RealExt = ''.html''\<rparr> 1
        ([tk StartTagToken ''h2''] @ [tk TextToken ''Title'']) (walker_init ''<h2>Title</h2>''))
      = [lintText (NewBlock ''<h2>Title</h2>'' ''Title'' ''text.heading.html'') 1 0]
   \<and> w_calls (walk (plain_extern [] ([], None) ([], Exited 0)) \<lparr>Path = ''a.html'', RealExt = ''.html''\<rparr> 1
        ([tk StartTagToken ''li''] @ [tk TextToken ''item'']) (walker_init ''<li>item</li>''))
      = [lintText (NewBlock ''<li>item</li>'' ''item'' ''text.list.html'') 1 0]
   \<and> w_calls (walk (plain_extern [] ([], None) ([], Exited 0)) \<lparr>Path = ''a.html'', RealExt = ''.html''\<rparr> 1
        ([tk StartTagToken ''p''] @ [tk TextToken ''word'']) (walker_init ''<p>word</p>''))
      = [lintProse ''<p>word</p>'' ''word'' 1 0]"
  using text_classified_by_current_tag
    [of "[tk StartTagToken ''h2'']" "tk TextToken ''Title''"
        "plain_extern [] ([], None) ([], Exited 0)" "\<lparr>Path = ''a.html'', RealExt = ''.html''\<rparr>" 1
        "walker_init ''<h2>Title</h2>''"]
    text_classified_by_current_tag
    [of "[tk StartTagToken ''li'']" "tk TextToken ''item''"
        "plain_extern [] ([], None) ([], Exited 0)" "\<lparr>Path = ''a.html'', RealExt = ''.html''\<rparr>" 1
        "walker_init ''<li>item</li>''"]
    text_classified_by_current_tag
    [of "[tk StartTagToken ''p'']" "tk TextToken ''word''"
        "plain_extern [] ([], None) ([], Exited 0)" "\<lparr>Path = ''a.html'', RealExt = ''.html''\<rparr>" 1
        "walker_init ''<p>word</p>''"]
  by (simp add: eval_defs)

subsection \<open>Consuming a fragment from the context\<close>

lemma Split_newline_single: "CHR 0x0A \<notin> set s \<Longrightarrow> Split_newline s = [s]"
  by (induction s) auto

lemma updateCtx_lines_foldl:
  "updateCtx_lines E ctx ss = foldl (consume_line E) ctx ss"
  by (induction ss arbitrary: ctx) (simp_all add: consume_line_def split: prod.splits)

lemma Substitute_spec_miss:
  "\<not> snd (Substitute_spec c x) \<Longrightarrow> fst (Substitute_spec c x) = c"
  by (simp add: Substitute_spec_def split: option.splits)

text \<open>
  C4, as stated, fails on a fragment of several lines: the fragment \<open>a b\<close>, newline, \<open>z\<close> has no
  match as a whole in \<open>a x b a b\<close>, yet its first line is consumed as a whole (leaving the
  empty buffer), not word by word (which would leave \<open> a b\<close>).
\<close>

theorem multi_line_fragment_not_word_by_word:
  "\<not> snd (Substitute (plain_extern [] ([], None) ([], Exited 0)) ''a x b a b''
          (''a b'' @ [CHR 0x0A] @ ''z''))
   \<and> updateCtx (plain_extern [] ([], None) ([], Exited 0)) ''a x b a b''
        (''a b'' @ [CHR 0x0A] @ ''z'') TextToken = []
   \<and> updateCtx_words (plain_extern [] ([], None) ([], Exited 0)) ''a x b a b''
        (Fields (plain_extern [] ([], None) ([], Exited 0)) (''a b'' @ [CHR 0x0A] @ ''z''))
      = '' a b''"
  by (simp add: eval_defs)

text \<open>
  C4, amended. \<open>updateCtx\<close> splits the fragment at newlines and consumes line by line. A line
  that has no exact match is split on white space and its words are consumed one after the
  other; so a fragment of one line that has no exact match is consumed word by word. The
  answer of the substitution for a word is dropped: a word that is not located leaves the
  buffer as the substitution returns it (unchanged, when a miss changes nothing) and the
  words after it are consumed all the same. \<open>updateCtx\<close> has no error result.
\<close>

theorem updateCtx_line_by_line:
  assumes "tokt = TextToken \<or> tokt = CommentToken" and "txt \<noteq> []"
  shows "updateCtx E ctx txt tokt = foldl (consume_line E) ctx (Split_newline txt)
       \<and> (CHR 0x0A \<notin> set txt \<and> \<not> snd (Substitute E ctx txt) \<longrightarrow>
            updateCtx E ctx txt tokt =
              updateCtx_words E (fst (Substitute E ctx txt)) (Fields E txt))
       \<and> ((\<forall>c x. \<not> snd (Substitute E c x) \<longrightarrow> fst (Substitute E c x) = c)
            \<and> \<not> snd (Substitute E c w) \<longrightarrow>
            updateCtx_words E c (w # ws) = updateCtx_words E c ws)"
  using assms
  by (auto simp: updateCtx_def updateCtx_lines_foldl Split_newline_single consume_line_def)

theorem updateCtx_line_by_line_witness:
  "(\<forall>c x. snd (Substitute (plain_extern [] ([], None) ([], Exited 0)) c x)
            \<or> fst (Substitute (plain_extern [] ([], None) ([], Exited 0)) c x) = c)
   \<and> CHR 0x0A \<notin> set ''big red fox''
   \<and> \<not> snd (Substitute (plain_extern [] ([], None) ([], Exited 0)) ''the big  fox ran'' ''big red fox'')
   \<and> \<not> snd (Substitute (plain_extern [] ([], None) ([], Exited 0)) ''  fox ran'' ''red'')
   \<and> updateCtx (plain_extern [] ([], None) ([], Exited 0)) ''the big  fox ran'' ''big red fox'' TextToken
      = '' ran''
   \<and> updateCtx_words (plain_extern [] ([], None) ([], Exited 0)) ''  fox ran'' [''red'', ''fox'']
      = updateCtx_words (plain_extern [] ([], None) ([], Exited 0)) ''  fox ran'' [''fox'']"
proof -
  let ?E = "plain_extern [] ([], None) ([], Exited 0)"
  have miss: "\<forall>c x. \<not> snd (Substitute ?E c x) \<longrightarrow> fst (Substitute ?E c x) = c"
    by (simp add: plain_extern_def Substitute_spec_miss)
  have one_line: "CHR 0x0A \<notin> set ''big red fox''"
    by simp
  have no_match: "\<not> snd (Substitute ?E ''the big  fox ran'' ''big red fox'')"
    and no_red: "\<not> snd (Substitute ?E ''  fox ran'' ''red'')"
    by (simp_all add: eval_defs)
  have words: "updateCtx_words ?E (fst (Substitute ?E ''the big  fox ran'' ''big red fox''))
      (Fields ?E ''big red fox'') = '' ran''"
    by (simp add: eval_defs)
  note inst = updateCtx_line_by_line
    [of TextToken "''big red fox''" ?E "''the big  fox ran''" "''  fox ran''" "''red''" "[''fox'']"]
  have "updateCtx ?E ''the big  fox ran'' ''big red fox'' TextToken
      = updateCtx_words ?E (fst (Substitute ?E ''the big  fox ran'' ''big red fox''))
          (Fields ?E ''big red fox'')"
    using inst one_line no_match by blast
  then have "updateCtx ?E ''the big  fox ran'' ''big red fox'' TextToken = '' ran''"
    by (simp only: words)
  moreover have "updateCtx_words ?E ''  fox ran'' [''red'', ''fox'']
      = updateCtx_words ?E ''  fox ran'' [''fox'']"
    using inst miss no_red by blast
  ultimately show ?thesis
    using miss one_line no_match no_red by blast
qed

end
